theory Spec2Isabelle
  imports Main
begin

section \<open>The content model of rtv (src/rtv/content.py)\<close>

text \<open>
  The exceptions that the modelled code raises or lets through. \<open>UpstreamError\<close> stands
  for an exception of the upstream call that the loader does not capture.
\<close>

datatype error = IndexError | ValueError | SubredditError | SubscriptionError | UpstreamError

subsection \<open>Upstream comment objects\<close>

text \<open>
  A node of the upstream reply tree: a \<open>praw.objects.Comment\<close> with its identifier, its
  body and its \<open>_replies\<close> field (\<open>None\<close> when unset), or a
  \<open>praw.objects.MoreComments\<close> marker with its identifier and its \<open>count\<close>.
  The attribute \<open>replies\<close> that \<open>flatten_comments\<close> reads after the repair of
  \<open>_replies\<close> is the list stored in \<open>_replies\<close>. The \<open>nested_level\<close> attribute that
  the source attaches to each object is carried beside the node, as a pair.
\<close>

datatype node =
    PrawComment nat string "node list option"
  | PrawMoreComments nat int

fun weight :: "node \<Rightarrow> nat" where
  "weight (PrawMoreComments i c) = 1"
| "weight (PrawComment i b None) = 1"
| "weight (PrawComment i b (Some ns)) = Suc (sum_list (map weight ns))"

definition stack_weight :: "(node \<times> int) list \<Rightarrow> nat" where
  "stack_weight stack = sum_list (map (\<lambda>p. weight (fst p)) stack)"

subsection \<open>Content.flatten_comments\<close>

text \<open>
  The \<open>while stack\<close> loop. The first argument is the work list \<open>stack\<close>, each object
  with its \<open>nested_level\<close>; the second is \<open>retval\<close>. \<open>stack.pop(0)\<close> on an empty
  list raises IndexError. A comment whose \<open>_replies\<close> was unset is returned with the
  field as the loop has set it.
\<close>

function flatten_loop :: "(node \<times> int) list \<Rightarrow> (node \<times> int) list \<Rightarrow> error + (node \<times> int) list" where
  "flatten_loop [] retval = Inr retval"
| "flatten_loop ((PrawMoreComments i c, lvl) # stack) retval =
     (if c = 0 then flatten_loop stack retval
      else flatten_loop stack (retval @ [(PrawMoreComments i c, lvl)]))"
| "flatten_loop [(PrawComment i b None, lvl)] retval = Inl IndexError"
| "flatten_loop ((PrawComment i b None, lvl) # (a, la) # stack) retval =
     flatten_loop ((a, lvl + 1) # stack) (retval @ [(PrawComment i b (Some [a]), lvl)])"
| "flatten_loop ((PrawComment i b (Some nested), lvl) # stack) retval =
     flatten_loop (map (\<lambda>n. (n, lvl + 1)) nested @ stack)
       (retval @ [(PrawComment i b (Some nested), lvl)])"
  by pat_completeness auto
termination
  by (relation "measure (\<lambda>(stack, retval). stack_weight stack)")
     (auto simp: stack_weight_def comp_def)

definition flatten_comments :: "node list \<Rightarrow> int \<Rightarrow> error + (node \<times> int) list" where
  "flatten_comments comments root_level =
     flatten_loop (map (\<lambda>item. (item, root_level)) comments) []"

subsection \<open>The preorder walk, as the specification words it\<close>

text \<open>
  A forest is well formed when every comment has its reply list set and no continuation
  marker declares a count of zero.
\<close>

fun well_formed :: "node \<Rightarrow> bool" where
  "well_formed (PrawMoreComments i c) = (c \<noteq> 0)"
| "well_formed (PrawComment i b None) = False"
| "well_formed (PrawComment i b (Some ns)) = list_all well_formed ns"

text \<open>
  The specification's preorder: a node at its depth, then the walks of its children, left
  to right, one level deeper.
\<close>

fun preorder :: "int \<Rightarrow> node \<Rightarrow> (node \<times> int) list" where
  "preorder lvl (PrawMoreComments i c) = [(PrawMoreComments i c, lvl)]"
| "preorder lvl (PrawComment i b None) = [(PrawComment i b None, lvl)]"
| "preorder lvl (PrawComment i b (Some ns)) =
     (PrawComment i b (Some ns), lvl) # concat (map (preorder (lvl + 1)) ns)"

definition preorder_forest :: "int \<Rightarrow> node list \<Rightarrow> (node \<times> int) list" where
  "preorder_forest lvl ns = concat (map (preorder lvl) ns)"

text \<open>The walk of a work list whose entries carry their own levels.\<close>

definition walk_stack :: "(node \<times> int) list \<Rightarrow> (node \<times> int) list" where
  "walk_stack stack = concat (map (\<lambda>p. preorder (snd p) (fst p)) stack)"

subsection \<open>Display records\<close>

text \<open>
  The dicts that \<open>strip_praw_comment\<close>, \<open>strip_praw_submission\<close>,
  \<open>strip_praw_subscription\<close> and \<open>toggle\<close> build are Python objects that \<open>get\<close>
  mutates in place and hands out again, so they live in a store addressed by references.
  Field \<open>dtype\<close> is the key \<open>type\<close>, \<open>selftext\<close> the key \<open>text\<close> and \<open>dname\<close>
  the key \<open>name\<close>; an optional field is \<open>None\<close> while the dict has no such key. The
  keys that are copied once from the upstream object and that \<open>get\<close>, \<open>toggle\<close> and
  \<open>iterate\<close> never read again (object, author, score, created, permalink, flair, likes,
  gold, url and the like) are left out.
\<close>

type_synonym ref = nat

datatype rtype = Submission | Comment | HiddenComment | MoreComments | Subscription

record data =
  dtype :: rtype
  level :: int
  body :: string
  title :: string
  selftext :: string
  dname :: string
  count :: "int option"
  cache :: "ref list"
  index :: "int option"
  split_title :: "string list option"
  split_text :: "string list option"
  split_body :: "string list option"
  n_rows :: "int option"
  offset :: "int option"

definition blank :: data where
  "blank = \<lparr>dtype = Comment, level = 0, body = [], title = [], selftext = [], dname = [],
     count = None, cache = [], index = None, split_title = None, split_text = None,
     split_body = None, n_rows = None, offset = None\<rparr>"

text \<open>The upstream submission and subscription objects, with the attributes read below.\<close>

datatype praw_submission = PrawSubmission (s_title: string) (s_selftext: string)
  (s_permalink: string) (s_comments: "node list")

datatype praw_subscription = PrawSubscription (display_name: string) (u_title: string)

definition strip_praw_comment :: "node \<times> int \<Rightarrow> data" where
  "strip_praw_comment c =
     (case fst c of
        PrawMoreComments i n \<Rightarrow>
          blank\<lparr>level := snd c, dtype := MoreComments, count := Some n,
            body := ''More comments''\<rparr>
      | PrawComment i b rs \<Rightarrow>
          blank\<lparr>level := snd c, dtype := Comment, body := b\<rparr>)"

definition strip_praw_submission :: "praw_submission \<Rightarrow> data" where
  "strip_praw_submission sub =
     blank\<lparr>dtype := Submission, title := s_title sub, selftext := s_selftext sub,
       index := None\<rparr>"

definition strip_praw_subscription :: "praw_subscription \<Rightarrow> data" where
  "strip_praw_subscription subscription =
     blank\<lparr>dtype := Subscription, dname := ''/r/'' @ display_name subscription,
       title := u_title subscription\<rparr>"

subsection \<open>Content.wrap_text\<close>

text \<open>
  \<open>str.splitlines\<close> and \<open>kitchen.text.display.wrap\<close> are library functions outside the
  repository: they are parameters of the model.
\<close>

record textlib =
  splitlines :: "string \<Rightarrow> string list"
  wrap :: "string \<Rightarrow> int \<Rightarrow> string list"

definition wrap_text :: "textlib \<Rightarrow> string \<Rightarrow> int \<Rightarrow> string list" where
  "wrap_text L txt width =
     concat (map (\<lambda>paragraph.
                    let lines = wrap L paragraph width
                    in if lines = [] then [[]] else lines)
                 (splitlines L txt))"

text \<open>A text library that keeps every text on one line, for concrete evaluation.\<close>

definition one_line :: textlib where
  "one_line = \<lparr>splitlines = (\<lambda>t. if t = [] then [] else [t]),
                wrap = (\<lambda>p w. if p = [] then [] else [p])\<rparr>"

subsection \<open>Content objects\<close>

text \<open>
  The fields shared by the content classes, with the store of the dicts they own:
  \<open>heap\<close> maps a reference to the dict's present value and \<open>next_ref\<close> is the next
  unused reference.
\<close>

record Content =
  name :: string
  order :: "string option"
  heap :: "ref \<Rightarrow> data"
  next_ref :: nat

record SubmissionContent = Content +
  indent_size :: int
  max_indent_level :: int
  submission_data :: ref
  comment_data :: "ref list"

text \<open>
  What a pull \<open>next(...)\<close> inside \<open>with self._loader()\<close> produces: an element, or an
  exception that the loader captures (it sets \<open>loader.exception\<close> and the block is left).
  The iterator is the list of its coming pulls; at the empty list it raises StopIteration.
  \<open>SubredditContent\<close> and \<open>SubscriptionContent\<close> have the same shape: \<open>upstream\<close> is
  \<open>_submissions\<close> or \<open>_subscriptions\<close>, \<open>store\<close> is \<open>_submission_data\<close> or
  \<open>_subscription_data\<close>, and \<open>pulls\<close> counts the calls of \<open>next\<close> made so far.
\<close>

datatype 'u pull = Item 'u | Failure

record 'u ListingContent = Content +
  upstream :: "'u pull list"
  store :: "ref list"
  pulls :: nat

subsection \<open>Python list operations\<close>

text \<open>
  \<open>xs[i:j] = ys\<close> for \<open>0 \<le> i\<close> and \<open>0 \<le> j\<close> (the only slices the code assigns):
  both ends are clamped to the length and an end before the start counts as the start.
\<close>

definition slice_assign :: "'a list \<Rightarrow> int \<Rightarrow> int \<Rightarrow> 'a list \<Rightarrow> 'a list" where
  "slice_assign xs i j ys = take (nat i) xs @ ys @ drop (nat (max i j)) xs"

text \<open>Decimal formatting of an integer, as \<open>'{0}'.format\<close> prints it.\<close>

function str_nat :: "nat \<Rightarrow> string" where
  "str_nat n =
     (if n < 10 then [''0123456789'' ! n]
      else str_nat (n div 10) @ [''0123456789'' ! (n mod 10)])"
  by pat_completeness auto
termination
  by (relation "measure id") auto

declare str_nat.simps [simp del]

definition str_int :: "int \<Rightarrow> string" where
  "str_int i = (if i < 0 then CHR ''-'' # str_nat (nat (- i)) else str_nat (nat i))"

subsection \<open>SubmissionContent.get\<close>

definition SubmissionContent_get ::
  "textlib \<Rightarrow> int \<Rightarrow> int \<Rightarrow> SubmissionContent \<Rightarrow> (error + ref) \<times> SubmissionContent" where
  "SubmissionContent_get L idx n_cols s =
     (if idx < - 1 then (Inl IndexError, s)
      else if idx = - 1 then
        (let r = submission_data s;
             d = heap s r;
             st = wrap_text L (title d) (n_cols - 2);
             sx = wrap_text L (selftext d) (n_cols - 2);
             d' = d\<lparr>split_title := Some st, split_text := Some sx,
                    n_rows := Some (int (length (st @ sx)) + 5), offset := Some 0\<rparr>
         in (Inr r, s\<lparr>heap := (heap s)(r := d')\<rparr>))
      else if int (length (comment_data s)) \<le> idx then (Inl IndexError, s)
      else
        (let r = comment_data s ! nat idx;
             d = heap s r;
             indent_level = min (level d) (max_indent_level s);
             off = indent_level * indent_size s;
             d' = (if dtype d = Comment then
                     (let width = n_cols - off;
                          sb = wrap_text L (body d) width
                      in d\<lparr>offset := Some off, split_body := Some sb,
                            n_rows := Some (int (length sb) + 1)\<rparr>)
                   else d\<lparr>offset := Some off, n_rows := Some 1\<rparr>)
         in (Inr r, s\<lparr>heap := (heap s)(r := d')\<rparr>)))"

subsection \<open>Content.iterate\<close>

text \<open>
  One resumption of the generator, from its index: \<open>None\<close> when the loop breaks, an
  error that \<open>get\<close> raised other than IndexError, or the record yielded with the index
  advanced by \<open>step\<close>. The method \<open>get\<close> of the subclass is a parameter.
\<close>

definition iterate_next ::
  "(int \<Rightarrow> int \<Rightarrow> 'st \<Rightarrow> (error + 'r) \<times> 'st) \<Rightarrow> int \<Rightarrow> int \<Rightarrow> int \<Rightarrow> 'st
     \<Rightarrow> (error + 'r \<times> int) option \<times> 'st" where
  "iterate_next get idx step n_cols s =
     (if step < 0 \<and> idx < 0 then (None, s)
      else (case get idx n_cols s of
              (Inl e, s') \<Rightarrow> if e = IndexError then (None, s') else (Some (Inl e), s')
            | (Inr d, s') \<Rightarrow> (Some (Inr (d, idx + step)), s')))"

text \<open>
  The records that a consumer asking for at most \<open>k\<close> of them receives. The generator is
  lazy and, where \<open>get\<close> keeps answering (step 0), endless: a result shorter than \<open>k\<close>
  means that the generator has stopped.
\<close>

fun iterate ::
  "nat \<Rightarrow> (int \<Rightarrow> int \<Rightarrow> 'st \<Rightarrow> (error + 'r) \<times> 'st) \<Rightarrow> int \<Rightarrow> int \<Rightarrow> int \<Rightarrow> 'st
     \<Rightarrow> (error + 'r list) \<times> 'st" where
  "iterate 0 get idx step n_cols s = (Inr [], s)"
| "iterate (Suc k) get idx step n_cols s =
     (case iterate_next get idx step n_cols s of
        (None, s') \<Rightarrow> (Inr [], s')
      | (Some (Inl e), s') \<Rightarrow> (Inl e, s')
      | (Some (Inr (d, idx')), s') \<Rightarrow>
          (case iterate k get idx' step n_cols s' of
             (Inl e, s'') \<Rightarrow> (Inl e, s'')
           | (Inr ds, s'') \<Rightarrow> (Inr (d # ds), s'')))"

subsection \<open>SubmissionContent.toggle\<close>

text \<open>
  The loop \<open>for d in self.iterate(index + 1, 1, n_cols)\<close> of the \<open>Comment\<close> branch:
  \<open>r\<close> is the dict \<open>data\<close>, \<open>j\<close> the generator's index, \<open>cached\<close> and \<open>cnt\<close> the
  lists \<open>cache\<close> and \<open>count\<close> of the source. \<open>d.get('count', 1)\<close> is 1 where the dict has no count.
\<close>

function toggle_loop ::
  "textlib \<Rightarrow> ref \<Rightarrow> int \<Rightarrow> int \<Rightarrow> ref list \<Rightarrow> int \<Rightarrow> SubmissionContent
     \<Rightarrow> (error + ref list \<times> int) \<times> SubmissionContent" where
  "toggle_loop L r n_cols j cached cnt s =
     (case iterate_next (SubmissionContent_get L) j 1 n_cols s of
        (None, s') \<Rightarrow> (Inr (cached, cnt), s')
      | (Some (Inl e), s') \<Rightarrow> (Inl e, s')
      | (Some (Inr (d, j')), s') \<Rightarrow>
          if level (heap s' d) \<le> level (heap s' r) then (Inr (cached, cnt), s')
          else toggle_loop L r n_cols j' (cached @ [d])
                 (cnt + (case count (heap s' d) of None \<Rightarrow> 1 | Some c \<Rightarrow> c)) s')"
  by pat_completeness auto
termination
proof (relation "measure (\<lambda>(L, r, n_cols, j, cached, cnt, s). nat (int (length (comment_data s)) - j))")
  show "wf (measure (\<lambda>(L, r, n_cols, j, cached, cnt, s). nat (int (length (comment_data s)) - j)))"
    by simp
next
  fix L :: textlib and r :: ref and n_cols j :: int and cached :: "ref list" and cnt :: int
    and s :: SubmissionContent and x s' y z d j'
  assume a: "(x, s') = iterate_next (SubmissionContent_get L) j 1 n_cols s"
    and b: "x = Some y" and c: "y = Inr z" and e: "(d, j') = z"
  from a b c e have "SubmissionContent_get L j n_cols s = (Inr d, s') \<and> j' = j + 1"
    by (auto simp: iterate_next_def split: prod.splits sum.splits if_splits)
  then have "j < int (length (comment_data s)) \<and> comment_data s' = comment_data s \<and> j' = j + 1"
    by (auto simp: SubmissionContent_get_def Let_def split: if_splits)
  then show "((L, r, n_cols, j', cached @ [d],
          cnt + (case count (heap s' d) of None \<Rightarrow> 1 | Some c \<Rightarrow> c), s'),
         (L, r, n_cols, j, cached, cnt, s))
        \<in> measure (\<lambda>(L, r, n_cols, j, cached, cnt, s). nat (int (length (comment_data s)) - j))"
    by simp
qed

declare toggle_loop.simps [simp del]

text \<open>
  What the guarded call \<open>data['object'].comments(update=True)\<close> produces: the fetched
  forest, an exception that the loader captures (\<open>loader.exception\<close> is set), or an
  exception that leaves the \<open>with\<close> block.
\<close>

datatype fetch = Fetched "node list" | Captured | Escaped

text \<open>Fresh dicts for the stripped comments, at consecutive unused references.\<close>

definition new_dicts :: "data list \<Rightarrow> ('a Content_scheme) \<Rightarrow> ref list \<times> 'a Content_scheme" where
  "new_dicts ds s =
     ([next_ref s ..< next_ref s + length ds],
      s\<lparr>heap := (\<lambda>r. if next_ref s \<le> r \<and> r < next_ref s + length ds
                       then ds ! (r - next_ref s) else heap s r),
        next_ref := next_ref s + length ds\<rparr>)"

definition toggle ::
  "textlib \<Rightarrow> fetch \<Rightarrow> int \<Rightarrow> int \<Rightarrow> SubmissionContent \<Rightarrow> (error + unit) \<times> SubmissionContent" where
  "toggle L fetched idx n_cols s =
     (case SubmissionContent_get L idx 70 s of
        (Inl e, s0) \<Rightarrow> (Inl e, s0)
      | (Inr r, s0) \<Rightarrow>
          (case dtype (heap s0 r) of
             Submission \<Rightarrow> (Inr (), s0)
           | Comment \<Rightarrow>
               (case toggle_loop L r n_cols (idx + 1) [r] 1 s0 of
                  (Inl e, s1) \<Rightarrow> (Inl e, s1)
                | (Inr (cached, cnt), s1) \<Rightarrow>
                    (let comment = blank\<lparr>dtype := HiddenComment, cache := cached,
                           count := Some cnt, level := level (heap s1 r), body := ''Hidden''\<rparr>;
                         (hs, s2) = new_dicts [comment] s1
                     in (Inr (), s2\<lparr>comment_data :=
                           slice_assign (comment_data s2) idx (idx + int (length cached)) hs\<rparr>)))
           | HiddenComment \<Rightarrow>
               (Inr (), s0\<lparr>comment_data :=
                  slice_assign (comment_data s0) idx (idx + 1) (cache (heap s0 r))\<rparr>)
           | MoreComments \<Rightarrow>
               (case fetched of
                  Escaped \<Rightarrow> (Inl UpstreamError, s0)
                | Captured \<Rightarrow> (Inr (), s0)
                | Fetched comments \<Rightarrow>
                    (case flatten_comments comments (level (heap s0 r)) of
                       Inl e \<Rightarrow> (Inl e, s0)
                     | Inr flat \<Rightarrow>
                         (let (rs, s1) = new_dicts (map strip_praw_comment flat) s0
                          in (Inr (), s1\<lparr>comment_data :=
                                slice_assign (comment_data s1) idx (idx + 1) rs\<rparr>))))
           | Subscription \<Rightarrow> (Inl ValueError, s0)))"

subsection \<open>SubmissionContent.__init__\<close>

text \<open>The store before the constructor has built any dict.\<close>

definition no_dicts :: "ref \<Rightarrow> data" where
  "no_dicts = (\<lambda>r. blank)"

definition SubmissionContent_init ::
  "praw_submission \<Rightarrow> int \<Rightarrow> int \<Rightarrow> string option \<Rightarrow> error + SubmissionContent" where
  "SubmissionContent_init submission indent max_indent ord =
     (let submission_data = strip_praw_submission submission
      in case flatten_comments (s_comments submission) 0 of
           Inl e \<Rightarrow> Inl e
         | Inr comments \<Rightarrow>
             (let s = \<lparr>name = s_permalink submission, order = ord,
                        heap = no_dicts(0 := submission_data), next_ref = 1,
                        indent_size = indent, max_indent_level = max_indent,
                        submission_data = 0, comment_data = []\<rparr>;
                  (rs, s') = new_dicts (map strip_praw_comment comments) s
              in Inr (s'\<lparr>comment_data := rs\<rparr>)))"

subsection \<open>SubredditContent and SubscriptionContent\<close>

text \<open>
  The loop \<open>while index >= len(store)\<close> of both \<open>get\<close> methods; \<open>strip\<close> builds the
  dict of a pulled element for the index asked for. StopIteration and a captured
  exception both end in IndexError.
\<close>

function pull_loop ::
  "(int \<Rightarrow> 'u \<Rightarrow> data) \<Rightarrow> int \<Rightarrow> 'u ListingContent \<Rightarrow> (error + unit) \<times> 'u ListingContent" where
  "pull_loop strip idx s =
     (if int (length (store s)) \<le> idx then
        (case upstream s of
           [] \<Rightarrow> (Inl IndexError, s\<lparr>pulls := Suc (pulls s)\<rparr>)
         | Failure # rest \<Rightarrow> (Inl IndexError, s\<lparr>upstream := rest, pulls := Suc (pulls s)\<rparr>)
         | Item x # rest \<Rightarrow>
             (let (rs, s') = new_dicts [strip idx x] (s\<lparr>upstream := rest, pulls := Suc (pulls s)\<rparr>)
              in pull_loop strip idx (s'\<lparr>store := store s' @ rs\<rparr>)))
      else (Inr (), s))"
  by pat_completeness auto
termination
  by (relation "measure (\<lambda>(strip, idx, s). length (upstream s))")
     (auto simp: new_dicts_def)

declare pull_loop.simps [simp del]

definition strip_numbered :: "int \<Rightarrow> praw_submission \<Rightarrow> data" where
  "strip_numbered idx submission =
     (let d = strip_praw_submission submission
      in d\<lparr>index := Some idx, title := str_int (idx + 1) @ ''. '' @ title d\<rparr>)"

definition SubredditContent_get ::
  "textlib \<Rightarrow> int \<Rightarrow> int \<Rightarrow> praw_submission ListingContent
     \<Rightarrow> (error + ref) \<times> praw_submission ListingContent" where
  "SubredditContent_get L idx n_cols s =
     (if idx < 0 then (Inl IndexError, s)
      else (case pull_loop strip_numbered idx s of
              (Inl e, s') \<Rightarrow> (Inl e, s')
            | (Inr u, s') \<Rightarrow>
                (let r = store s' ! nat idx;
                     d = heap s' r;
                     st = wrap_text L (title d) n_cols;
                     d' = d\<lparr>split_title := Some st, n_rows := Some (int (length st) + 3),
                            offset := Some 0\<rparr>
                 in (Inr r, s'\<lparr>heap := (heap s')(r := d')\<rparr>))))"

definition SubscriptionContent_get ::
  "textlib \<Rightarrow> int \<Rightarrow> int \<Rightarrow> praw_subscription ListingContent
     \<Rightarrow> (error + ref) \<times> praw_subscription ListingContent" where
  "SubscriptionContent_get L idx n_cols s =
     (if idx < 0 then (Inl IndexError, s)
      else (case pull_loop (\<lambda>i. strip_praw_subscription) idx s of
              (Inl e, s') \<Rightarrow> (Inl e, s')
            | (Inr u, s') \<Rightarrow>
                (let r = store s' ! nat idx;
                     d = heap s' r;
                     st = wrap_text L (title d) n_cols;
                     d' = d\<lparr>split_title := Some st, n_rows := Some (int (length st) + 1),
                            offset := Some 0\<rparr>
                 in (Inr r, s'\<lparr>heap := (heap s')(r := d')\<rparr>))))"

text \<open>
  The constructors: the fields are set, \<open>get(0)\<close> is tried, and IndexError becomes the
  construction error.
\<close>

definition SubredditContent_init ::
  "textlib \<Rightarrow> string \<Rightarrow> praw_submission pull list \<Rightarrow> string option
     \<Rightarrow> error + praw_submission ListingContent" where
  "SubredditContent_init L nm submissions ord =
     (case SubredditContent_get L 0 70
             \<lparr>name = nm, order = ord, heap = no_dicts, next_ref = 0,
              upstream = submissions, store = [], pulls = 0\<rparr> of
        (Inl e, s) \<Rightarrow> if e = IndexError then Inl SubredditError else Inl e
      | (Inr r, s) \<Rightarrow> Inr s)"

definition SubscriptionContent_init ::
  "textlib \<Rightarrow> praw_subscription pull list \<Rightarrow> error + praw_subscription ListingContent" where
  "SubscriptionContent_init L subscriptions =
     (case SubscriptionContent_get L 0 70
             \<lparr>name = ''Subscriptions'', order = None, heap = no_dicts, next_ref = 0,
              upstream = subscriptions, store = [], pulls = 0\<rparr> of
        (Inl e, s) \<Rightarrow> if e = IndexError then Inl SubscriptionError else Inl e
      | (Inr r, s) \<Rightarrow> Inr s)"

subsection \<open>Notions used in the statements\<close>

text \<open>What \<open>get\<close> writes into the header dict and into a comment dict.\<close>

definition header_shown :: "textlib \<Rightarrow> int \<Rightarrow> data \<Rightarrow> data" where
  "header_shown L n_cols d =
     d\<lparr>split_title := Some (wrap_text L (title d) (n_cols - 2)),
       split_text := Some (wrap_text L (selftext d) (n_cols - 2)),
       n_rows := Some (int (length (wrap_text L (title d) (n_cols - 2) @
                                    wrap_text L (selftext d) (n_cols - 2))) + 5),
       offset := Some 0\<rparr>"

definition comment_shown :: "textlib \<Rightarrow> int \<Rightarrow> int \<Rightarrow> int \<Rightarrow> data \<Rightarrow> data" where
  "comment_shown L n_cols indent max_indent d =
     (if dtype d = Comment then
        d\<lparr>offset := Some (min (level d) max_indent * indent),
          split_body := Some (wrap_text L (body d) (n_cols - min (level d) max_indent * indent)),
          n_rows := Some (int (length (wrap_text L (body d)
                       (n_cols - min (level d) max_indent * indent))) + 1)\<rparr>
      else d\<lparr>offset := Some (min (level d) max_indent * indent), n_rows := Some 1\<rparr>)"

definition listing_shown :: "textlib \<Rightarrow> int \<Rightarrow> int \<Rightarrow> data \<Rightarrow> data" where
  "listing_shown L n_cols extra d =
     d\<lparr>split_title := Some (wrap_text L (title d) n_cols),
       n_rows := Some (int (length (wrap_text L (title d) n_cols)) + extra),
       offset := Some 0\<rparr>"

text \<open>A dict without the display keys that \<open>get\<close> writes.\<close>

definition static :: "data \<Rightarrow> data" where
  "static d = d\<lparr>split_title := None, split_text := None, split_body := None,
                 n_rows := None, offset := None\<rparr>"

text \<open>
  Two states of a submission content that differ at most in the display keys of their
  dicts: the same fields, the same dicts, the same unused references.
\<close>

definition shown_only :: "SubmissionContent \<Rightarrow> SubmissionContent \<Rightarrow> bool" where
  "shown_only s s' \<longleftrightarrow> s'\<lparr>heap := heap s\<rparr> = s \<and> (\<forall>q. static (heap s' q) = static (heap s q))"

text \<open>\<open>d.get('count', 1)\<close>.\<close>

definition count_or_1 :: "data \<Rightarrow> int" where
  "count_or_1 d = (case count d of None \<Rightarrow> 1 | Some c \<Rightarrow> c)"

text \<open>
  The records after position \<open>i\<close> that lie deeper than the record at \<open>i\<close>, up to the
  first that does not: the subtree of the comment at \<open>i\<close>.
\<close>

definition subtree_run :: "SubmissionContent \<Rightarrow> nat \<Rightarrow> ref list" where
  "subtree_run s i =
     takeWhile (\<lambda>d. level (heap s (comment_data s ! i)) < level (heap s d))
       (drop (Suc i) (comment_data s))"

text \<open>Every dict of the content lies below the next unused reference.\<close>

definition allocated :: "SubmissionContent \<Rightarrow> bool" where
  "allocated s \<longleftrightarrow> submission_data s < next_ref s \<and>
     list_all (\<lambda>r. r < next_ref s) (comment_data s)"

text \<open>
  The content of the specification's scenario: a header and the flattened comments
  \<open>c1, c2, c2a, c2b, c3\<close> at depths \<open>0, 0, 1, 1, 0\<close>, followed by a continuation marker.
\<close>

definition demo_content :: SubmissionContent where
  "demo_content =
     \<lparr>name = ''permalink'', order = None,
      heap = no_dicts
        (0 := blank\<lparr>dtype := Submission, title := ''title'', selftext := ''text''\<rparr>,
         1 := blank\<lparr>dtype := Comment, level := 0, body := ''c1''\<rparr>,
         2 := blank\<lparr>dtype := Comment, level := 0, body := ''c2''\<rparr>,
         3 := blank\<lparr>dtype := Comment, level := 1, body := ''c2a''\<rparr>,
         4 := blank\<lparr>dtype := Comment, level := 1, body := ''c2b''\<rparr>,
         5 := blank\<lparr>dtype := Comment, level := 0, body := ''c3''\<rparr>,
         6 := blank\<lparr>dtype := MoreComments, level := 0, count := Some 7,
                     body := ''More comments''\<rparr>),
      next_ref = 7, indent_size = 2, max_indent_level = 8,
      submission_data = 0, comment_data = [1, 2, 3, 4, 5, 6]\<rparr>"

text \<open>A listing whose store holds two records, with one element still upstream.\<close>

definition demo_listing :: "'u \<Rightarrow> 'u ListingContent" where
  "demo_listing x =
     \<lparr>name = ''/r/demo'', order = None,
      heap = no_dicts(0 := blank\<lparr>dtype := Submission, title := ''1. a''\<rparr>,
                      1 := blank\<lparr>dtype := Submission, title := ''2. b''\<rparr>),
      next_ref = 2, upstream = [Item x], store = [0, 1], pulls = 2\<rparr>"

text \<open>A listing with nothing resolved, over the given iterator.\<close>

definition fresh_listing :: "'u pull list \<Rightarrow> 'u ListingContent" where
  "fresh_listing ps =
     \<lparr>name = ''/r/demo'', order = None, heap = no_dicts, next_ref = 0,
      upstream = ps, store = [], pulls = 0\<rparr>"

text \<open>
  A \<open>get\<close> that answers every negative index with an error that \<open>iterate\<close> does not
  catch: iterating over it shows whether a negative index is ever read.
\<close>

definition refusing_negative ::
  "(int \<Rightarrow> int \<Rightarrow> 'st \<Rightarrow> (error + 'r) \<times> 'st) \<Rightarrow> int \<Rightarrow> int \<Rightarrow> 'st \<Rightarrow> (error + 'r) \<times> 'st" where
  "refusing_negative get = (\<lambda>i w s. if i < 0 then (Inl ValueError, s) else get i w s)"

text \<open>The first pull of an iterator yields no element: it is exhausted or it fails.\<close>

definition first_pull_fails :: "'u pull list \<Rightarrow> bool" where
  "first_pull_fails ps = (case ps of [] \<Rightarrow> True | Failure # rest \<Rightarrow> True | Item x # rest \<Rightarrow> False)"

section \<open>Properties of flatten_comments\<close>

lemma preorder_forest_Nil [simp]: "preorder_forest lvl [] = []"
  by (simp add: preorder_forest_def)

lemma preorder_forest_Cons [simp]:
  "preorder_forest lvl (n # ns) = preorder lvl n @ preorder_forest lvl ns"
  by (simp add: preorder_forest_def)

lemma walk_stack_simps [simp]:
  "walk_stack [] = []"
  "walk_stack ((n, l) # stack) = preorder l n @ walk_stack stack"
  "walk_stack (xs @ ys) = walk_stack xs @ walk_stack ys"
  by (simp_all add: walk_stack_def)

lemma walk_stack_level: "walk_stack (map (\<lambda>n. (n, l)) ns) = preorder_forest l ns"
  by (induction ns) simp_all

lemma flatten_loop_preorder:
  "\<forall>p \<in> set stack. well_formed (fst p) \<Longrightarrow>
   flatten_loop stack retval = Inr (retval @ walk_stack stack)"
proof (induction stack retval rule: flatten_loop.induct)
  case (5 i b nested lvl stack retval)
  have "\<forall>p \<in> set (map (\<lambda>n. (n, lvl + 1)) nested @ stack). well_formed (fst p)"
    using "5.prems" by (auto simp: list_all_iff)
  from "5.IH" [OF this] show ?case
    by (simp add: walk_stack_level preorder_forest_def)
qed (auto simp: walk_stack_level)

text \<open>
  C4. On a well-formed forest, \<open>flatten_comments\<close> returns without error the preorder
  walk of the forest: the roots at \<open>root_level\<close>, every child one level below its parent,
  children left to right after their parent.
\<close>

theorem flatten_comments_preorder:
  "list_all well_formed comments \<Longrightarrow>
   flatten_comments comments root_level = Inr (preorder_forest root_level comments)"
proof -
  assume wf: "list_all well_formed comments"
  have "\<forall>p \<in> set (map (\<lambda>item. (item, root_level)) comments). well_formed (fst p)"
    using wf by (simp add: list_all_iff)
  from flatten_loop_preorder [OF this, of "[]"] show ?thesis
    by (simp add: flatten_comments_def walk_stack_level)
qed

text \<open>
  The scenario of the specification: three top-level comments, the second with two
  children, flatten to \<open>[c1, c2, c2a, c2b, c3]\<close> at depths \<open>[0, 0, 1, 1, 0]\<close>.
\<close>

theorem flatten_comments_preorder_witness:
  "list_all well_formed
     [PrawComment 1 ''c1'' (Some []),
      PrawComment 2 ''c2'' (Some [PrawComment 3 ''c2a'' (Some []),
                                  PrawComment 4 ''c2b'' (Some [])]),
      PrawComment 5 ''c3'' (Some [])] \<and>
   flatten_comments
     [PrawComment 1 ''c1'' (Some []),
      PrawComment 2 ''c2'' (Some [PrawComment 3 ''c2a'' (Some []),
                                  PrawComment 4 ''c2b'' (Some [])]),
      PrawComment 5 ''c3'' (Some [])] 0 =
   Inr [(PrawComment 1 ''c1'' (Some []), 0),
        (PrawComment 2 ''c2'' (Some [PrawComment 3 ''c2a'' (Some []),
                                     PrawComment 4 ''c2b'' (Some [])]), 0),
        (PrawComment 3 ''c2a'' (Some []), 1),
        (PrawComment 4 ''c2b'' (Some []), 1),
        (PrawComment 5 ''c3'' (Some []), 0)]"
  using flatten_comments_preorder
    [of "[PrawComment 1 ''c1'' (Some []),
          PrawComment 2 ''c2'' (Some [PrawComment 3 ''c2a'' (Some []),
                                      PrawComment 4 ''c2b'' (Some [])]),
          PrawComment 5 ''c3'' (Some [])]" 0]
  by simp

text \<open>
  C5. The claim that an unset reply list is repaired wherever it occurs fails where the
  comment is the last element of the work list: the second \<open>stack.pop(0)\<close> finds the list
  empty and \<open>flatten_comments\<close> raises IndexError.
\<close>

theorem flatten_comments_unset_replies_last:
  "flatten_comments [PrawComment 1 ''c1'' None] 0 = Inl IndexError"
  by (simp add: flatten_comments_def)

section \<open>Properties of get\<close>

lemma SubmissionContent_get_header:
  "SubmissionContent_get L (- 1) n_cols s =
     (Inr (submission_data s),
      s\<lparr>heap := (heap s)(submission_data s := header_shown L n_cols (heap s (submission_data s)))\<rparr>)"
  by (simp add: SubmissionContent_get_def header_shown_def Let_def)

lemma SubmissionContent_get_comment:
  "0 \<le> idx \<Longrightarrow> idx < int (length (comment_data s)) \<Longrightarrow>
   SubmissionContent_get L idx n_cols s =
     (Inr (comment_data s ! nat idx),
      s\<lparr>heap := (heap s)(comment_data s ! nat idx :=
         comment_shown L n_cols (indent_size s) (max_indent_level s)
           (heap s (comment_data s ! nat idx)))\<rparr>)"
  by (simp add: SubmissionContent_get_def comment_shown_def Let_def)

lemma SubmissionContent_get_out_of_range:
  "idx < - 1 \<or> int (length (comment_data s)) \<le> idx \<Longrightarrow>
   SubmissionContent_get L idx n_cols s = (Inl IndexError, s)"
  by (auto simp: SubmissionContent_get_def)

lemma SubmissionContent_get_cases:
  "SubmissionContent_get L idx n_cols s = (Inr r, s1) \<Longrightarrow>
   idx = - 1 \<or> (0 \<le> idx \<and> idx < int (length (comment_data s)))"
  by (cases "idx < - 1 \<or> int (length (comment_data s)) \<le> idx")
     (auto simp: SubmissionContent_get_out_of_range)

lemma header_shown_twice [simp]:
  "header_shown L n_cols (header_shown L n_cols d) = header_shown L n_cols d"
  by (simp add: header_shown_def)

lemma comment_shown_twice [simp]:
  "comment_shown L n_cols i m (comment_shown L n_cols i m d) = comment_shown L n_cols i m d"
  by (simp add: comment_shown_def)

lemma listing_shown_twice [simp]:
  "listing_shown L n_cols k (listing_shown L n_cols k d) = listing_shown L n_cols k d"
  by (simp add: listing_shown_def)

lemma SubmissionContent_get_twice:
  "SubmissionContent_get L idx n_cols s = (Inr r, s1) \<Longrightarrow>
   SubmissionContent_get L idx n_cols s1 = (Inr r, s1)"
proof -
  assume a: "SubmissionContent_get L idx n_cols s = (Inr r, s1)"
  from SubmissionContent_get_cases [OF a] show ?thesis
  proof
    assume i: "idx = - 1"
    from a have r: "r = submission_data s"
      and s1: "s1 = s\<lparr>heap := (heap s)(r := header_shown L n_cols (heap s r))\<rparr>"
      unfolding i SubmissionContent_get_header by auto
    have "s1\<lparr>heap := (heap s1)(submission_data s1 :=
            header_shown L n_cols (heap s1 (submission_data s1)))\<rparr> = s1"
      by (simp add: s1 r)
    moreover have "submission_data s1 = r" by (simp add: s1 r)
    ultimately show ?thesis unfolding i SubmissionContent_get_header by simp
  next
    assume b: "0 \<le> idx \<and> idx < int (length (comment_data s))"
    then have b1: "0 \<le> idx" and b2: "idx < int (length (comment_data s))" by simp_all
    from a have r: "r = comment_data s ! nat idx"
      and s1: "s1 = s\<lparr>heap := (heap s)(r :=
         comment_shown L n_cols (indent_size s) (max_indent_level s) (heap s r))\<rparr>"
      unfolding SubmissionContent_get_comment [OF b1 b2] by auto
    have c2: "idx < int (length (comment_data s1))" using b2 by (simp add: s1)
    have "s1\<lparr>heap := (heap s1)(comment_data s1 ! nat idx :=
            comment_shown L n_cols (indent_size s1) (max_indent_level s1)
              (heap s1 (comment_data s1 ! nat idx)))\<rparr> = s1"
      by (simp add: s1 r)
    moreover have "comment_data s1 ! nat idx = r" by (simp add: s1 r)
    ultimately show ?thesis unfolding SubmissionContent_get_comment [OF b1 c2] by simp
  qed
qed

subsection \<open>The pull loop of the listings\<close>

lemma pull_loop_cached:
  "idx < int (length (store s)) \<Longrightarrow> pull_loop strip idx s = (Inr (), s)"
  by (subst pull_loop.simps) simp

lemma pull_loop_exhausted:
  "upstream s = [] \<Longrightarrow> int (length (store s)) \<le> idx \<Longrightarrow>
   pull_loop strip idx s = (Inl IndexError, s\<lparr>pulls := Suc (pulls s)\<rparr>)"
  by (subst pull_loop.simps) simp

lemma pull_loop_failure:
  "upstream s = Failure # rest \<Longrightarrow> int (length (store s)) \<le> idx \<Longrightarrow>
   pull_loop strip idx s = (Inl IndexError, s\<lparr>upstream := rest, pulls := Suc (pulls s)\<rparr>)"
  by (subst pull_loop.simps) simp

lemma new_dicts_single:
  "new_dicts [d] s =
     ([next_ref s], s\<lparr>heap := (heap s)(next_ref s := d), next_ref := Suc (next_ref s)\<rparr>)"
proof -
  have "(\<lambda>r. if next_ref s \<le> r \<and> r < Suc (next_ref s) then [d] ! (r - next_ref s)
             else heap s r) = (heap s)(next_ref s := d)"
    by (rule ext) auto
  then show ?thesis by (simp add: new_dicts_def)
qed

lemma pull_loop_item:
  "upstream s = Item x # rest \<Longrightarrow> int (length (store s)) \<le> idx \<Longrightarrow>
   pull_loop strip idx s =
     pull_loop strip idx
       (s\<lparr>upstream := rest, pulls := Suc (pulls s),
          heap := (heap s)(next_ref s := strip idx x),
          next_ref := Suc (next_ref s), store := store s @ [next_ref s]\<rparr>)"
  by (subst pull_loop.simps) (simp add: new_dicts_single)

lemma pull_loop_result:
  "pull_loop strip idx s = (res, s') \<Longrightarrow>
   (res = Inr () \<and> idx < int (length (store s'))) \<or> res = Inl IndexError"
proof (induction strip idx s rule: pull_loop.induct)
  case (1 strip idx s)
  show ?case
  proof (cases "int (length (store s)) \<le> idx")
    case False
    with "1.prems" show ?thesis by (simp add: pull_loop_cached)
  next
    case True
    show ?thesis
    proof (cases "upstream s")
      case Nil
      with True "1.prems" show ?thesis by (simp add: pull_loop_exhausted)
    next
      case (Cons p rest)
      show ?thesis
      proof (cases p)
        case Failure
        with Cons True "1.prems" show ?thesis by (simp add: pull_loop_failure)
      next
        case (Item x)
        obtain rs s1 where nd:
          "new_dicts [strip idx x] (s\<lparr>upstream := rest, pulls := Suc (pulls s)\<rparr>) = (rs, s1)"
          by (cases "new_dicts [strip idx x] (s\<lparr>upstream := rest, pulls := Suc (pulls s)\<rparr>)")
        from "1.prems" True Cons Item nd
        have "pull_loop strip idx (s1\<lparr>store := store s1 @ rs\<rparr>) = (res, s')"
          by (subst (asm) pull_loop.simps) simp
        from "1.IH" [OF True Cons Item nd [symmetric] refl this] show ?thesis .
      qed
    qed
  qed
qed

lemma SubredditContent_get_cached:
  "0 \<le> idx \<Longrightarrow> idx < int (length (store s)) \<Longrightarrow>
   SubredditContent_get L idx n_cols s =
     (Inr (store s ! nat idx),
      s\<lparr>heap := (heap s)(store s ! nat idx :=
                   listing_shown L n_cols 3 (heap s (store s ! nat idx)))\<rparr>)"
  by (simp add: SubredditContent_get_def pull_loop_cached Let_def listing_shown_def)

lemma SubscriptionContent_get_cached:
  "0 \<le> idx \<Longrightarrow> idx < int (length (store s)) \<Longrightarrow>
   SubscriptionContent_get L idx n_cols s =
     (Inr (store s ! nat idx),
      s\<lparr>heap := (heap s)(store s ! nat idx :=
                   listing_shown L n_cols 1 (heap s (store s ! nat idx)))\<rparr>)"
  by (simp add: SubscriptionContent_get_def pull_loop_cached Let_def listing_shown_def)

lemma SubredditContent_get_pulled:
  "SubredditContent_get L idx n_cols s = (Inr r, s1) \<Longrightarrow>
   \<exists>s'. pull_loop strip_numbered idx s = (Inr (), s') \<and> 0 \<le> idx \<and>
         idx < int (length (store s')) \<and> r = store s' ! nat idx \<and>
         s1 = s'\<lparr>heap := (heap s')(r := listing_shown L n_cols 3 (heap s' r))\<rparr>"
proof -
  assume a: "SubredditContent_get L idx n_cols s = (Inr r, s1)"
  then have nonneg: "0 \<le> idx"
    by (auto simp: SubredditContent_get_def split: if_splits)
  obtain res s' where pl: "pull_loop strip_numbered idx s = (res, s')"
    by (cases "pull_loop strip_numbered idx s")
  from a nonneg pl have res: "res = Inr ()"
    by (auto simp: SubredditContent_get_def split: sum.splits)
  with pull_loop_result [OF pl] have lt: "idx < int (length (store s'))" by simp
  from a nonneg pl res have "r = store s' ! nat idx"
    "s1 = s'\<lparr>heap := (heap s')(r := listing_shown L n_cols 3 (heap s' r))\<rparr>"
    by (auto simp: SubredditContent_get_def Let_def listing_shown_def)
  with pl res nonneg lt show ?thesis by blast
qed

lemma SubscriptionContent_get_pulled:
  "SubscriptionContent_get L idx n_cols s = (Inr r, s1) \<Longrightarrow>
   \<exists>s'. pull_loop (\<lambda>i. strip_praw_subscription) idx s = (Inr (), s') \<and> 0 \<le> idx \<and>
         idx < int (length (store s')) \<and> r = store s' ! nat idx \<and>
         s1 = s'\<lparr>heap := (heap s')(r := listing_shown L n_cols 1 (heap s' r))\<rparr>"
proof -
  assume a: "SubscriptionContent_get L idx n_cols s = (Inr r, s1)"
  then have nonneg: "0 \<le> idx"
    by (auto simp: SubscriptionContent_get_def split: if_splits)
  obtain res s' where pl: "pull_loop (\<lambda>i. strip_praw_subscription) idx s = (res, s')"
    by (cases "pull_loop (\<lambda>i. strip_praw_subscription) idx s")
  from a nonneg pl have res: "res = Inr ()"
    by (auto simp: SubscriptionContent_get_def split: sum.splits)
  with pull_loop_result [OF pl] have lt: "idx < int (length (store s'))" by simp
  from a nonneg pl res have "r = store s' ! nat idx"
    "s1 = s'\<lparr>heap := (heap s')(r := listing_shown L n_cols 1 (heap s' r))\<rparr>"
    by (auto simp: SubscriptionContent_get_def Let_def listing_shown_def)
  with pl res nonneg lt show ?thesis by blast
qed

lemma SubredditContent_get_twice:
  "SubredditContent_get L idx n_cols s = (Inr r, s1) \<Longrightarrow>
   SubredditContent_get L idx n_cols s1 = (Inr r, s1)"
proof -
  assume a: "SubredditContent_get L idx n_cols s = (Inr r, s1)"
  from SubredditContent_get_pulled [OF a] obtain s' where
    nonneg: "0 \<le> idx" and lt: "idx < int (length (store s'))" and r: "r = store s' ! nat idx"
    and s1: "s1 = s'\<lparr>heap := (heap s')(r := listing_shown L n_cols 3 (heap s' r))\<rparr>"
    by blast
  have lt1: "idx < int (length (store s1))" using lt by (simp add: s1)
  have "s1\<lparr>heap := (heap s1)(store s1 ! nat idx :=
          listing_shown L n_cols 3 (heap s1 (store s1 ! nat idx)))\<rparr> = s1"
    by (simp add: s1 r)
  moreover have "store s1 ! nat idx = r" by (simp add: s1 r)
  ultimately show ?thesis unfolding SubredditContent_get_cached [OF nonneg lt1] by simp
qed

lemma SubscriptionContent_get_twice:
  "SubscriptionContent_get L idx n_cols s = (Inr r, s1) \<Longrightarrow>
   SubscriptionContent_get L idx n_cols s1 = (Inr r, s1)"
proof -
  assume a: "SubscriptionContent_get L idx n_cols s = (Inr r, s1)"
  from SubscriptionContent_get_pulled [OF a] obtain s' where
    nonneg: "0 \<le> idx" and lt: "idx < int (length (store s'))" and r: "r = store s' ! nat idx"
    and s1: "s1 = s'\<lparr>heap := (heap s')(r := listing_shown L n_cols 1 (heap s' r))\<rparr>"
    by blast
  have lt1: "idx < int (length (store s1))" using lt by (simp add: s1)
  have "s1\<lparr>heap := (heap s1)(store s1 ! nat idx :=
          listing_shown L n_cols 1 (heap s1 (store s1 ! nat idx)))\<rparr> = s1"
    by (simp add: s1 r)
  moreover have "store s1 ! nat idx = r" by (simp add: s1 r)
  ultimately show ?thesis unfolding SubscriptionContent_get_cached [OF nonneg lt1] by simp
qed

section \<open>Determinism of get\<close>

text \<open>
  C8. For each of the three content classes, a \<open>get\<close> that has returned a record
  returns, when called again with the same index and width on the state it left, the same
  dict and leaves that state as it is: every field of the record, the wrapped lines,
  \<open>n_rows\<close> and \<open>offset\<close> included, is the same.
\<close>

theorem get_deterministic:
  "(SubmissionContent_get L idx n_cols s = (Inr r, s1) \<longrightarrow>
      SubmissionContent_get L idx n_cols s1 = (Inr r, s1)) \<and>
   (SubredditContent_get L idx n_cols t = (Inr r', t1) \<longrightarrow>
      SubredditContent_get L idx n_cols t1 = (Inr r', t1)) \<and>
   (SubscriptionContent_get L idx n_cols u = (Inr r'', u1) \<longrightarrow>
      SubscriptionContent_get L idx n_cols u1 = (Inr r'', u1))"
  using SubmissionContent_get_twice SubredditContent_get_twice SubscriptionContent_get_twice
  by blast

theorem get_deterministic_witness:
  "SubmissionContent_get one_line 1 70 demo_content =
     (Inr 2, snd (SubmissionContent_get one_line 1 70 demo_content)) \<and>
   SubmissionContent_get one_line 1 70 (snd (SubmissionContent_get one_line 1 70 demo_content)) =
     (Inr 2, snd (SubmissionContent_get one_line 1 70 demo_content)) \<and>
   SubredditContent_get one_line 1 70 (demo_listing (PrawSubmission ''a'' ''b'' ''c'' [])) =
     (Inr 1, snd (SubredditContent_get one_line 1 70 (demo_listing (PrawSubmission ''a'' ''b'' ''c'' [])))) \<and>
   SubredditContent_get one_line 1 70 (snd (SubredditContent_get one_line 1 70 (demo_listing (PrawSubmission ''a'' ''b'' ''c'' [])))) =
     (Inr 1, snd (SubredditContent_get one_line 1 70 (demo_listing (PrawSubmission ''a'' ''b'' ''c'' [])))) \<and>
   SubscriptionContent_get one_line 1 70 (demo_listing (PrawSubscription ''a'' ''b'')) =
     (Inr 1, snd (SubscriptionContent_get one_line 1 70 (demo_listing (PrawSubscription ''a'' ''b'')))) \<and>
   SubscriptionContent_get one_line 1 70 (snd (SubscriptionContent_get one_line 1 70 (demo_listing (PrawSubscription ''a'' ''b'')))) =
     (Inr 1, snd (SubscriptionContent_get one_line 1 70 (demo_listing (PrawSubscription ''a'' ''b''))))"
proof -
  have a: "SubmissionContent_get one_line 1 70 demo_content =
     (Inr 2, snd (SubmissionContent_get one_line 1 70 demo_content))"
    by (simp add: SubmissionContent_get_comment demo_content_def)
  have b: "SubredditContent_get one_line 1 70 (demo_listing (PrawSubmission ''a'' ''b'' ''c'' [])) =
     (Inr 1, snd (SubredditContent_get one_line 1 70 (demo_listing (PrawSubmission ''a'' ''b'' ''c'' []))))"
    by (simp add: SubredditContent_get_cached demo_listing_def)
  have c: "SubscriptionContent_get one_line 1 70 (demo_listing (PrawSubscription ''a'' ''b'')) =
     (Inr 1, snd (SubscriptionContent_get one_line 1 70 (demo_listing (PrawSubscription ''a'' ''b''))))"
    by (simp add: SubscriptionContent_get_cached demo_listing_def)
  from a b c
    get_deterministic [of one_line 1 70 demo_content 2
      "snd (SubmissionContent_get one_line 1 70 demo_content)"
      "demo_listing (PrawSubmission ''a'' ''b'' ''c'' [])" 1 "snd (SubredditContent_get one_line 1 70 (demo_listing (PrawSubmission ''a'' ''b'' ''c'' [])))"
      "demo_listing (PrawSubscription ''a'' ''b'')" 1 "snd (SubscriptionContent_get one_line 1 70 (demo_listing (PrawSubscription ''a'' ''b'')))"]
  show ?thesis by blast
qed

end
